theory Spec2Isabelle
  imports
    Complex_Main
    "HOL-Library.Multiset"
    "HOL-Library.Product_Lexorder"
    "HOL-Library.Char_ord"
    "HOL-Library.List_Lexorder"
begin

section \<open>The finance dashboard pipeline of \<^verbatim>\<open>finance_analysis.py\<close>\<close>

text \<open>
  The script reads a CSV of transactions with pandas, derives a month and a type for
  every row (\<^verbatim>\<open>load_data\<close>), aggregates per month (\<^verbatim>\<open>monthly_trends\<close>) and per
  category (\<^verbatim>\<open>category_breakdown\<close>), and computes the series it plots
  (\<^verbatim>\<open>save_charts\<close>) and the figures of its report (\<^verbatim>\<open>write_summary\<close>).

  Modelling decisions:
  \<^item> Amounts are exact rationals; a missing amount cell (pandas \<^verbatim>\<open>NaN\<close>) is \<open>None\<close>.
    Rounding errors of binary floating point are outside the model.
  \<^item> A date is a triple (year, month, day), ordered lexicographically, which is the
    chronological order; a missing date (\<^verbatim>\<open>NaT\<close>) is \<open>None\<close>.
  \<^item> A missing category or description cell is \<open>None\<close>.
  \<^item> A pandas \<^verbatim>\<open>Series\<close> is the list of its (label, value) pairs in index order; a
    \<^verbatim>\<open>DataFrame\<close> with computed columns is a record of its index, its column labels
    and its cells.
  \<^item> The frame read from the CSV is given by its header and by the cells of the four
    required columns of every row; header names are taken to stay distinct after
    lower-casing, so that \<^verbatim>\<open>df["date"]\<close> and its like select one column.
  \<^item> \<^verbatim>\<open>sort_values\<close> is called with the default \<^verbatim>\<open>kind\<close>, which pandas documents
    as not stable. The sorting routine is therefore a parameter of the model, and the
    theorems assume of it only what every sort kind guarantees.
\<close>

subsection \<open>Data\<close>

type_synonym date = "int \<times> nat \<times> nat"

text \<open>What \<^verbatim>\<open>pd.to_datetime\<close> makes of one cell of the date column.\<close>

datatype date_cell = NaT | Parses date | Unparseable

record raw_row =
  raw_date :: date_cell
  raw_description :: "string option"
  raw_amount :: "rat option"
  raw_category :: "string option"

record raw_table =
  csv_columns :: "string list"
  csv_rows :: "raw_row list"

text \<open>A row of the frame returned by \<^verbatim>\<open>load_data\<close>.\<close>

record row =
  date :: "date option"
  description :: "string option"
  amount :: "rat option"
  category :: "string option"
  month :: "date option"
  type :: string

datatype error =
    MissingColumns "string set"
  | DateParseError

type_synonym 'k series = "('k \<times> rat) list"

record frame =
  index :: "date list"
  columns :: "string list"
  cell :: "date \<Rightarrow> string \<Rightarrow> rat"

text \<open>
  The routine behind \<^verbatim>\<open>Series.sort_values\<close>: it returns the series reordered by
  ascending value.
\<close>

type_synonym sorter = "string series \<Rightarrow> string series"

subsection \<open>\<^verbatim>\<open>load_data\<close>\<close>

definition required :: "string set" where
  "required = {''date'', ''description'', ''amount'', ''category''}"

text \<open>
  \<^verbatim>\<open>str.lower\<close> on the letters A to Z. The required names are ASCII, and no other
  character lower-cases to one of their letters, so that for the comparison with the
  required names the bytes outside A to Z can stay as they are.
\<close>

definition lower_char :: "char \<Rightarrow> char" where
  "lower_char c =
     (let n = (of_char c :: nat) in if 65 \<le> n \<and> n \<le> 90 then char_of (n + 32) else c)"

definition lower :: "string \<Rightarrow> string" where
  "lower s = map lower_char s"

definition cell_date :: "date_cell \<Rightarrow> date option" where
  "cell_date c = (case c of NaT \<Rightarrow> None | Parses d \<Rightarrow> Some d | Unparseable \<Rightarrow> None)"

text \<open>\<^verbatim>\<open>pd.to_datetime\<close> on a column raises as soon as one cell cannot be parsed.\<close>

definition to_datetime :: "date_cell list \<Rightarrow> error + date option list" where
  "to_datetime cs =
     (if Unparseable \<in> set cs then Inl DateParseError else Inr (map cell_date cs))"

text \<open>\<^verbatim>\<open>.dt.to_period("M").dt.to_timestamp()\<close>: the first day of the month.\<close>

definition to_month :: "date \<Rightarrow> date" where
  "to_month d = (case d of (y, m, _) \<Rightarrow> (y, m, 1))"

text \<open>Comparisons with \<^verbatim>\<open>NaN\<close> are false.\<close>

definition ge0 :: "rat option \<Rightarrow> bool" where
  "ge0 a = (case a of None \<Rightarrow> False | Some v \<Rightarrow> 0 \<le> v)"

definition lt0 :: "rat option \<Rightarrow> bool" where
  "lt0 a = (case a of None \<Rightarrow> False | Some v \<Rightarrow> v < 0)"

definition derive :: "raw_row \<Rightarrow> date option \<Rightarrow> row" where
  "derive r d =
     \<lparr> date = d, description = raw_description r, amount = raw_amount r,
       category = raw_category r, month = map_option to_month d,
       type = (if ge0 (raw_amount r) then ''income'' else ''expense'') \<rparr>"

definition load_data :: "raw_table \<Rightarrow> error + row list" where
  "load_data t =
     (let missing = required - set (map lower (csv_columns t)) in
      if missing \<noteq> {} then Inl (MissingColumns missing)
      else case to_datetime (map raw_date (csv_rows t)) of
             Inl e \<Rightarrow> Inl e
           | Inr ds \<Rightarrow> Inr (map2 derive (csv_rows t) ds))"

subsection \<open>Group-by, pivot and the monthly series\<close>

text \<open>\<^verbatim>\<open>groupby\<close> drops the rows whose key is missing (\<^verbatim>\<open>dropna=True\<close>).\<close>

fun dropna :: "('k option \<times> 'v) list \<Rightarrow> ('k \<times> 'v) list" where
  "dropna [] = []"
| "dropna ((None, v) # kvs) = dropna kvs"
| "dropna ((Some k, v) # kvs) = (k, v) # dropna kvs"

text \<open>\<^verbatim>\<open>sum\<close> skips \<^verbatim>\<open>NaN\<close>.\<close>

definition nansum :: "rat option list \<Rightarrow> rat" where
  "nansum xs = sum_list (map (\<lambda>a. case a of None \<Rightarrow> 0 | Some v \<Rightarrow> v) xs)"

text \<open>\<^verbatim>\<open>groupby(key)["amount"].sum()\<close>: one entry per key, keys in sorted order.\<close>

definition groupby_sum :: "('k::linorder option \<times> rat option) list \<Rightarrow> ('k \<times> rat) list" where
  "groupby_sum kvs =
     (let present = dropna kvs in
      map (\<lambda>k. (k, nansum (map snd (filter (\<lambda>p. fst p = k) present))))
        (sort (remdups (map fst present))))"

definition unstack :: "rat \<Rightarrow> ((date \<times> string) \<times> rat) list \<Rightarrow> frame" where
  "unstack fill_value s =
     \<lparr> index = sort (remdups (map (fst \<circ> fst) s)),
       columns = sort (remdups (map (snd \<circ> fst) s)),
       cell = (\<lambda>m c. case map_of s (m, c) of Some v \<Rightarrow> v | None \<Rightarrow> fill_value) \<rparr>"

text \<open>\<^verbatim>\<open>frame[c] = values\<close>: replaces the column, or appends it.\<close>

definition setitem :: "frame \<Rightarrow> string \<Rightarrow> (date \<Rightarrow> rat) \<Rightarrow> frame" where
  "setitem f c v =
     f \<lparr> columns := (if c \<in> set (columns f) then columns f else columns f @ [c]),
         cell := (\<lambda>m c'. if c' = c then v m else cell f m c') \<rparr>"

text \<open>
  \<^verbatim>\<open>frame[c]\<close> as a series. The frames it is applied to below have the column, so
  that the \<^verbatim>\<open>KeyError\<close> of pandas cannot arise (see \<open>monthly_trends_columns\<close>).
\<close>

definition getitem :: "frame \<Rightarrow> string \<Rightarrow> date series" where
  "getitem f c = map (\<lambda>m. (m, cell f m c)) (index f)"

definition sort_index :: "frame \<Rightarrow> frame" where
  "sort_index f = f \<lparr> index := sort (index f) \<rparr>"

definition month_type_key :: "row \<Rightarrow> (date \<times> string) option" where
  "month_type_key r = map_option (\<lambda>m. (m, type r)) (month r)"

definition monthly_trends :: "row list \<Rightarrow> frame" where
  "monthly_trends df =
     (let monthly = unstack 0 (groupby_sum (map (\<lambda>r. (month_type_key r, amount r)) df));
          monthly = (if ''income'' \<notin> set (columns monthly)
                     then setitem monthly ''income'' (\<lambda>_. 0) else monthly);
          monthly = (if ''expense'' \<notin> set (columns monthly)
                     then setitem monthly ''expense'' (\<lambda>_. 0) else monthly);
          monthly = sort_index monthly
      in setitem monthly ''net''
           (\<lambda>m. cell monthly m ''income'' + cell monthly m ''expense''))"

subsection \<open>The category series\<close>

text \<open>
  \<^verbatim>\<open>sort_values(ascending=...)\<close>: pandas sorts descending by reversing the input,
  sorting ascending and reversing the result.
\<close>

definition sort_values :: "sorter \<Rightarrow> bool \<Rightarrow> string series \<Rightarrow> string series" where
  "sort_values argsort ascending s =
     (if ascending then argsort s else rev (argsort (rev s)))"

definition category_breakdown :: "sorter \<Rightarrow> row list \<Rightarrow> string series" where
  "category_breakdown argsort df =
     (let exp = filter (\<lambda>r. lt0 (amount r)) df;
          by_cat = sort_values argsort True
                     (groupby_sum (map (\<lambda>r. (category r, amount r)) exp))
      in by_cat)"

subsection \<open>\<^verbatim>\<open>save_charts\<close> and \<^verbatim>\<open>write_summary\<close>\<close>

definition abs_series :: "'k series \<Rightarrow> 'k series" where
  "abs_series s = map (\<lambda>(k, v). (k, \<bar>v\<bar>)) s"

definition mul_series :: "'k series \<Rightarrow> rat \<Rightarrow> 'k series" where
  "mul_series s c = map (\<lambda>(k, v). (k, v * c)) s"

definition head :: "nat \<Rightarrow> 'a list \<Rightarrow> 'a list" where
  "head n s = take n s"

definition sum_series :: "'k series \<Rightarrow> rat" where
  "sum_series s = sum_list (map snd s)"

text \<open>The running sum, carried in an accumulator as \<^verbatim>\<open>cumsum\<close> does.\<close>

fun cumsum_from :: "rat \<Rightarrow> 'k series \<Rightarrow> 'k series" where
  "cumsum_from acc [] = []"
| "cumsum_from acc ((k, v) # s) = (k, acc + v) # cumsum_from (acc + v) s"

definition cumsum :: "'k series \<Rightarrow> 'k series" where
  "cumsum s = cumsum_from 0 s"

text \<open>Rounding to the nearest integer, halves to the even neighbour.\<close>

definition rint :: "rat \<Rightarrow> int" where
  "rint x =
     (let f = \<lfloor>x\<rfloor>; d = x - of_int f in
      if d < 1 / 2 then f else if 1 / 2 < d then f + 1
      else if even f then f else f + 1)"

definition round_dec :: "nat \<Rightarrow> rat \<Rightarrow> rat" where
  "round_dec n x = of_int (rint (x * 10 ^ n)) / 10 ^ n"

definition round_series :: "'k series \<Rightarrow> nat \<Rightarrow> 'k series" where
  "round_series s n = map (\<lambda>(k, v). (k, round_dec n v)) s"

record charts =
  trend :: "(date \<times> rat \<times> rat \<times> rat) list"
  top10 :: "string series"
  cum_net :: "date series"

definition save_charts :: "sorter \<Rightarrow> frame \<Rightarrow> string series \<Rightarrow> charts" where
  "save_charts argsort monthly by_cat =
     \<lparr> trend = map (\<lambda>m. (m, cell monthly m ''income'', cell monthly m ''expense'',
                           cell monthly m ''net'')) (index monthly),
       top10 = mul_series (head 10 (sort_values argsort False (abs_series by_cat))) (- 1),
       cum_net = cumsum (getitem monthly ''net'') \<rparr>"

record summary =
  total_income :: rat
  total_expense :: rat
  total_net :: rat
  top5 :: "string series"

definition write_summary :: "sorter \<Rightarrow> frame \<Rightarrow> string series \<Rightarrow> summary" where
  "write_summary argsort monthly by_cat =
     \<lparr> total_income = sum_series (getitem monthly ''income''),
       total_expense = sum_series (getitem monthly ''expense''),
       total_net = sum_series (getitem monthly ''net''),
       top5 = round_series
                (mul_series (head 5 (sort_values argsort False (abs_series by_cat))) (- 1)) 2 \<rparr>"

definition main :: "sorter \<Rightarrow> raw_table \<Rightarrow> error + (charts \<times> summary)" where
  "main argsort t =
     (case load_data t of
        Inl e \<Rightarrow> Inl e
      | Inr df \<Rightarrow>
          (let monthly = monthly_trends df;
               by_cat = category_breakdown argsort df
           in Inr (save_charts argsort monthly by_cat, write_summary argsort monthly by_cat)))"

subsection \<open>What a sorting routine guarantees\<close>

definition sorts :: "sorter \<Rightarrow> bool" where
  "sorts argsort \<longleftrightarrow> (\<forall>s. mset (argsort s) = mset s \<and> sorted (map snd (argsort s)))"


subsection \<open>The example of the specification\<close>

definition example_rows :: "raw_row list" where
  "example_rows =
     [\<lparr> raw_date = Parses (2024, 1, 5), raw_description = Some ''lunch'',
        raw_amount = Some (- 50), raw_category = Some ''Food'' \<rparr>,
      \<lparr> raw_date = Parses (2024, 1, 10), raw_description = Some ''salary'',
        raw_amount = Some 2000, raw_category = None \<rparr>,
      \<lparr> raw_date = Parses (2024, 2, 1), raw_description = None,
        raw_amount = Some (- 30), raw_category = Some ''Food'' \<rparr>]"

definition example_table :: raw_table where
  "example_table =
     \<lparr> csv_columns = [''Date'', ''Description'', ''Amount'', ''Category''],
       csv_rows = example_rows \<rparr>"

definition example_df :: "row list" where
  "example_df =
     [\<lparr> date = Some (2024, 1, 5), description = Some ''lunch'', amount = Some (- 50),
        category = Some ''Food'', month = Some (2024, 1, 1), type = ''expense'' \<rparr>,
      \<lparr> date = Some (2024, 1, 10), description = Some ''salary'', amount = Some 2000,
        category = None, month = Some (2024, 1, 1), type = ''income'' \<rparr>,
      \<lparr> date = Some (2024, 2, 1), description = None, amount = Some (- 30),
        category = Some ''Food'', month = Some (2024, 2, 1), type = ''expense'' \<rparr>]"

text \<open>A table with an expense row whose category cell is empty.\<close>

definition uncategorised_table :: raw_table where
  "uncategorised_table =
     \<lparr> csv_columns = [''date'', ''description'', ''amount'', ''category''],
       csv_rows =
         [\<lparr> raw_date = Parses (2024, 1, 5), raw_description = Some ''lunch'',
            raw_amount = Some (- 50), raw_category = Some ''Food'' \<rparr>,
          \<lparr> raw_date = Parses (2024, 1, 7), raw_description = Some ''cash'',
            raw_amount = Some (- 20), raw_category = None \<rparr>] \<rparr>"

definition lunch_row :: row where
  "lunch_row =
     \<lparr> date = Some (2024, 1, 5), description = Some ''lunch'', amount = Some (- 50),
       category = Some ''Food'', month = Some (2024, 1, 1), type = ''expense'' \<rparr>"

definition cash_row :: row where
  "cash_row =
     \<lparr> date = Some (2024, 1, 7), description = Some ''cash'', amount = Some (- 20),
       category = None, month = Some (2024, 1, 1), type = ''expense'' \<rparr>"

definition uncategorised_df :: "row list" where
  "uncategorised_df = [lunch_row, cash_row]"

subsection \<open>Two sorting routines\<close>

text \<open>Insertion sort by value, which is stable.\<close>

definition insertion_sort :: sorter where
  "insertion_sort s = sort_key snd s"


subsection \<open>Reference sums\<close>

text \<open>The sum of the amounts of the rows of month \<open>m\<close> and type \<open>c\<close>.\<close>

definition month_total :: "row list \<Rightarrow> date \<Rightarrow> string \<Rightarrow> rat" where
  "month_total df m c =
     nansum (map amount (filter (\<lambda>r. month r = Some m \<and> type r = c) df))"


section \<open>Loading\<close>

lemma load_data_unfold:
  "load_data t =
     (if required \<subseteq> lower ` set (csv_columns t)
      then (case to_datetime (map raw_date (csv_rows t)) of
              Inl e \<Rightarrow> Inl e | Inr ds \<Rightarrow> Inr (map2 derive (csv_rows t) ds))
      else Inl (MissingColumns {c \<in> required. c \<notin> lower ` set (csv_columns t)}))"
proof -
  have "required - set (map lower (csv_columns t))
      = {c \<in> required. c \<notin> lower ` set (csv_columns t)}"
    by auto
  moreover have "({c \<in> required. c \<notin> lower ` set (csv_columns t)} = {})
      = (required \<subseteq> lower ` set (csv_columns t))"
    by auto
  ultimately show ?thesis
    by (simp add: load_data_def Let_def)
qed

lemma lower_required: "c \<in> required \<Longrightarrow> lower c = c"
  unfolding required_def by (elim insertE emptyE; hypsubst; code_simp)

text \<open>
  Claim C4. A header name \<open>n\<close> matches a required name \<open>c\<close> without regard to letter
  case when \<open>lower n = lower c\<close>. If some required name is matched by no header name,
  \<open>load_data\<close> fails with the error that carries exactly the set of unmatched required
  names, and returns no table. If every required name is matched, that error does not
  arise.
\<close>

theorem load_data_schema_check:
  "((\<exists>c\<in>required. \<forall>n\<in>set (csv_columns t). lower n \<noteq> lower c) \<longrightarrow>
      load_data t =
        Inl (MissingColumns {c \<in> required. \<forall>n\<in>set (csv_columns t). lower n \<noteq> lower c})
      \<and> (\<forall>df. load_data t \<noteq> Inr df))
   \<and> ((\<forall>c\<in>required. \<exists>n\<in>set (csv_columns t). lower n = lower c) \<longrightarrow>
      (\<forall>ms. load_data t \<noteq> Inl (MissingColumns ms)))"
proof -
  have eq: "{c \<in> required. \<forall>n\<in>set (csv_columns t). lower n \<noteq> lower c}
      = {c \<in> required. c \<notin> lower ` set (csv_columns t)}"
    using lower_required by auto
  have sub: "(required \<subseteq> lower ` set (csv_columns t))
      = (\<forall>c\<in>required. \<exists>n\<in>set (csv_columns t). lower n = lower c)"
    using lower_required by (auto simp: image_iff subset_iff)
  show ?thesis
    unfolding eq
    by (auto simp: load_data_unfold sub to_datetime_def split: sum.splits if_splits)
qed

theorem load_data_schema_check_witness:
  "load_data \<lparr>csv_columns = [''Date'', ''AMOUNT''], csv_rows = []\<rparr>
     = Inl (MissingColumns {''description'', ''category''})
   \<and> (\<forall>ms. load_data \<lparr>csv_columns = [''DATE'', ''Description'', ''amount'', ''Category'',
                                       ''Notes''], csv_rows = []\<rparr>
        \<noteq> Inl (MissingColumns ms))"
proof -
  let ?t1 = "\<lparr>csv_columns = [''Date'', ''AMOUNT''], csv_rows = []\<rparr>"
  let ?t2 = "\<lparr>csv_columns = [''DATE'', ''Description'', ''amount'', ''Category'', ''Notes''],
              csv_rows = []\<rparr>"
  have l: "lower ''Date'' = ''date''" "lower ''AMOUNT'' = ''amount''"
     "lower ''DATE'' = ''date''" "lower ''Description'' = ''description''"
     "lower ''Category'' = ''category''" "lower ''Notes'' = ''notes''"
     "lower ''date'' = ''date''" "lower ''amount'' = ''amount''"
     "lower ''description'' = ''description''" "lower ''category'' = ''category''"
    by code_simp+
  have h1: "\<exists>c\<in>required. \<forall>n\<in>set (csv_columns ?t1). lower n \<noteq> lower c"
    by (simp add: required_def l)
  have s1: "{c \<in> required. \<forall>n\<in>set (csv_columns ?t1). lower n \<noteq> lower c}
      = {''description'', ''category''}"
    by (auto simp: required_def l)
  have h2: "\<forall>c\<in>required. \<exists>n\<in>set (csv_columns ?t2). lower n = lower c"
    by (simp add: required_def l)
  from load_data_schema_check [of ?t1] h1 s1 load_data_schema_check [of ?t2] h2
  show ?thesis by (simp del: raw_table.simps)
qed

lemma example_load: "load_data example_table = Inr example_df"
  by code_simp

lemma load_data_rows:
  assumes "load_data t = Inr df"
  shows "df = map (\<lambda>r. derive r (cell_date (raw_date r))) (csv_rows t)"
proof -
  from assms have "df = map2 derive (csv_rows t) (map cell_date (map raw_date (csv_rows t)))"
    by (auto simp: load_data_unfold to_datetime_def split: if_splits)
  also have "\<dots> = map (\<lambda>r. derive r (cell_date (raw_date r))) (csv_rows t)"
    by (induction "csv_rows t") (simp_all add: zip_map2 map_zip_map2 zip_same_conv_map)
  finally show ?thesis .
qed

lemma load_data_type:
  assumes "load_data t = Inr df" "r \<in> set df"
  shows "type r = (if ge0 (amount r) then ''income'' else ''expense'')"
    and "month r = map_option to_month (date r)"
  using assms(2) unfolding load_data_rows [OF assms(1)]
  by (auto simp: derive_def)

text \<open>
  Claim C8. In the table returned by \<open>load_data\<close> the amounts are those of the input
  rows, and for every row the type is \<open>''income''\<close> exactly when the amount is a number
  that is at least 0, and \<open>''expense''\<close> exactly when it is not; so every row has one
  of the two types and never both.
\<close>

theorem load_data_type_sign:
  assumes "load_data t = Inr df"
  shows "map amount df = map raw_amount (csv_rows t)
       \<and> (\<forall>r\<in>set df. (type r = ''income'' \<longleftrightarrow> (\<exists>v. amount r = Some v \<and> 0 \<le> v))
                    \<and> (type r = ''expense'' \<longleftrightarrow> \<not> (\<exists>v. amount r = Some v \<and> 0 \<le> v)))"
  unfolding load_data_rows [OF assms]
  by (auto simp: derive_def ge0_def comp_def split: option.splits)

theorem load_data_type_sign_witness:
  "\<exists>df. load_data example_table = Inr df
     \<and> map type df = [''expense'', ''income'', ''expense'']
     \<and> (\<forall>r\<in>set df. (type r = ''income'' \<longleftrightarrow> (\<exists>v. amount r = Some v \<and> 0 \<le> v))
                    \<and> (type r = ''expense'' \<longleftrightarrow> \<not> (\<exists>v. amount r = Some v \<and> 0 \<le> v)))"
  using load_data_type_sign [OF example_load] by (simp add: example_load example_df_def)


section \<open>The monthly series\<close>

lemma set_dropna: "set (dropna kvs) = {(k, v). (Some k, v) \<in> set kvs}"
  by (induction kvs rule: dropna.induct) auto

lemma dropna_filter:
  "map snd (filter (\<lambda>p. fst p = k) (dropna kvs)) = map snd (filter (\<lambda>p. fst p = Some k) kvs)"
  by (induction kvs rule: dropna.induct) auto

lemma fst_set_dropna: "fst ` set (dropna kvs) = {k. Some k \<in> fst ` set kvs}"
  by (force simp: set_dropna image_iff)

lemma groupby_sum_keys: "map fst (groupby_sum kvs) = sort (remdups (map fst (dropna kvs)))"
  by (simp add: groupby_sum_def Let_def comp_def)

lemma set_groupby_sum_keys: "fst ` set (groupby_sum kvs) = {k. Some k \<in> fst ` set kvs}"
proof -
  have "fst ` set (groupby_sum kvs) = set (map fst (groupby_sum kvs))" by simp
  also have "\<dots> = fst ` set (dropna kvs)" unfolding groupby_sum_keys by simp
  finally show ?thesis by (simp add: fst_set_dropna)
qed


lemma sorted_groupby_sum: "sorted (map fst (groupby_sum kvs))"
  unfolding groupby_sum_keys by simp

lemma map_of_tabulate:
  "map_of (map (\<lambda>k. (k, f k)) ks) k = (if k \<in> set ks then Some (f k) else None)"
  by (induction ks) auto

lemma map_of_groupby_sum:
  "map_of (groupby_sum kvs) k =
     (if Some k \<in> fst ` set kvs
      then Some (nansum (map snd (filter (\<lambda>p. fst p = Some k) kvs))) else None)"
proof -
  have "(k \<in> set (sort (remdups (map fst (dropna kvs))))) = (Some k \<in> fst ` set kvs)"
    using fst_set_dropna [of kvs] by auto
  then show ?thesis
    by (simp add: groupby_sum_def Let_def map_of_tabulate dropna_filter del: set_sort set_remdups)
qed

lemma nansum_no_key:
  "Some k \<notin> fst ` set kvs \<Longrightarrow> nansum (map snd (filter (\<lambda>p. fst p = Some k) kvs)) = 0"
proof -
  assume "Some k \<notin> fst ` set kvs"
  then have "filter (\<lambda>p. fst p = Some k) kvs = []"
    by (auto simp: filter_empty_conv image_iff)
  then show ?thesis by (simp add: nansum_def)
qed

lemma cell_unstack_groupby:
  "cell (unstack 0 (groupby_sum kvs)) m c
     = nansum (map snd (filter (\<lambda>p. fst p = Some (m, c)) kvs))"
  by (simp add: unstack_def map_of_groupby_sum nansum_no_key)

lemma month_type_key_iff:
  "(month_type_key r = Some (m, c)) = (month r = Some m \<and> type r = c)"
  by (cases "month r") (simp_all add: month_type_key_def)

lemma month_type_key_present:
  "(Some (m, c) \<in> fst ` set (map (\<lambda>r. (month_type_key r, amount r)) df))
     = (\<exists>r\<in>set df. month r = Some m \<and> type r = c)"
proof -
  have "(Some (m, c) \<in> fst ` set (map (\<lambda>r. (month_type_key r, amount r)) df))
      = (\<exists>r\<in>set df. month_type_key r = Some (m, c))"
    by (simp add: image_iff) metis
  then show ?thesis by (simp only: month_type_key_iff)
qed

lemma groupby_month_type_key:
  "((m, c) \<in> fst ` set (groupby_sum (map (\<lambda>r. (month_type_key r, amount r)) df)))
     = (\<exists>r\<in>set df. month r = Some m \<and> type r = c)"
  by (simp only: set_groupby_sum_keys mem_Collect_eq month_type_key_present)

lemma filter_month_type_key:
  "map snd (filter (\<lambda>p. fst p = Some (m, c)) (map (\<lambda>r. (month_type_key r, amount r)) df))
     = map amount (filter (\<lambda>r. month r = Some m \<and> type r = c) df)"
  by (induction df) (simp_all add: month_type_key_iff)

lemma cell_unstack_monthly:
  "cell (unstack 0 (groupby_sum (map (\<lambda>r. (month_type_key r, amount r)) df))) m c
     = month_total df m c"
  by (simp add: cell_unstack_groupby filter_month_type_key month_total_def)

lemma columns_unstack_monthly:
  "(c \<in> set (columns (unstack 0 (groupby_sum (map (\<lambda>r. (month_type_key r, amount r)) df)))))
     = (\<exists>r\<in>set df. month r \<noteq> None \<and> type r = c)"
proof -
  let ?g = "groupby_sum (map (\<lambda>r. (month_type_key r, amount r)) df)"
  have "(c \<in> set (columns (unstack 0 ?g))) = (c \<in> snd ` fst ` set ?g)"
    by (simp add: unstack_def image_image)
  also have "\<dots> = (\<exists>m. (m, c) \<in> fst ` set ?g)"
    by force
  also have "\<dots> = (\<exists>r\<in>set df. month r \<noteq> None \<and> type r = c)"
    unfolding groupby_month_type_key by blast
  finally show ?thesis .
qed

lemma index_unstack_monthly:
  "(m \<in> set (index (unstack 0 (groupby_sum (map (\<lambda>r. (month_type_key r, amount r)) df)))))
     = (\<exists>r\<in>set df. month r = Some m)"
proof -
  let ?g = "groupby_sum (map (\<lambda>r. (month_type_key r, amount r)) df)"
  have "(m \<in> set (index (unstack 0 ?g))) = (m \<in> fst ` fst ` set ?g)"
    by (simp add: unstack_def image_image)
  also have "\<dots> = (\<exists>c. (m, c) \<in> fst ` set ?g)"
    by force
  also have "\<dots> = (\<exists>r\<in>set df. month r = Some m)"
    unfolding groupby_month_type_key by blast
  finally show ?thesis .
qed

lemma month_total_no_rows:
  "\<forall>r\<in>set df. month r = Some m \<longrightarrow> type r \<noteq> c \<Longrightarrow> month_total df m c = 0"
proof -
  assume "\<forall>r\<in>set df. month r = Some m \<longrightarrow> type r \<noteq> c"
  then have "filter (\<lambda>r. month r = Some m \<and> type r = c) df = []"
    unfolding filter_empty_conv by blast
  then show ?thesis by (simp add: month_total_def nansum_def)
qed

lemma monthly_trends_index:
  "index (monthly_trends df) = sorted_list_of_set {m. \<exists>r\<in>set df. month r = Some m}"
proof -
  let ?u = "unstack 0 (groupby_sum (map (\<lambda>r. (month_type_key r, amount r)) df))"
  have i: "index (monthly_trends df) = sort (index ?u)"
    by (simp add: monthly_trends_def Let_def setitem_def sort_index_def)
  have d: "distinct (index ?u)" by (simp add: unstack_def)
  have "sort (index ?u) = sorted_list_of_set (set (index ?u))"
    using d by (simp add: sorted_list_of_set_sort_remdups distinct_remdups_id)
  moreover have "set (index ?u) = {m. \<exists>r\<in>set df. month r = Some m}"
    using index_unstack_monthly [of _ df] by blast
  ultimately show ?thesis unfolding i by simp
qed

lemma finite_months: "finite {m. \<exists>r\<in>set df. month r = Some m}"
proof (rule finite_subset)
  show "{m. \<exists>r\<in>set df. month r = Some m} \<subseteq> the ` month ` set df" by force
qed simp

lemma monthly_trends_index_set:
  "set (index (monthly_trends df)) = {m. \<exists>r\<in>set df. month r = Some m}"
  by (simp add: monthly_trends_index finite_months)


lemma monthly_trends_cell:
  assumes "c = ''income'' \<or> c = ''expense''"
  shows "cell (monthly_trends df) m c = month_total df m c"
proof -
  let ?u = "unstack 0 (groupby_sum (map (\<lambda>r. (month_type_key r, amount r)) df))"
  have z: "month_total df m c' = 0" if "c' \<notin> set (columns ?u)" for c'
  proof (rule month_total_no_rows, intro ballI impI)
    fix r assume "r \<in> set df" "month r = Some m"
    with that show "type r \<noteq> c'"
      unfolding columns_unstack_monthly by blast
  qed
  have ne: "''income'' \<noteq> ''expense''" "''net'' \<noteq> ''income''" "''net'' \<noteq> ''expense''" by simp_all
  from assms show ?thesis
  proof
    assume "c = ''income''"
    then show ?thesis
      using z [of "''income''"]
      by (simp add: monthly_trends_def Let_def setitem_def sort_index_def cell_unstack_monthly)
  next
    assume "c = ''expense''"
    then show ?thesis
      using z [of "''expense''"]
      by (simp add: monthly_trends_def Let_def setitem_def sort_index_def cell_unstack_monthly)
  qed
qed


lemma monthly_trends_columns:
  "{''income'', ''expense'', ''net''} \<subseteq> set (columns (monthly_trends df))"
  by (simp add: monthly_trends_def Let_def setitem_def sort_index_def)




lemma example_monthly_index: "index (monthly_trends example_df) = [(2024, 1, 1), (2024, 2, 1)]"
  by code_simp

lemma example_trend:
  "map (\<lambda>m. (m, cell (monthly_trends example_df) m ''income'',
                cell (monthly_trends example_df) m ''expense'',
                cell (monthly_trends example_df) m ''net'')) (index (monthly_trends example_df))
    = [((2024, 1, 1), 2000, - 50, 1950), ((2024, 2, 1), 0, - 30, - 30)]"
  by code_simp



text \<open>
  Claim C3. The index of the monthly series is the sorted list, without repetition, of
  the months that occur in the rows. The series has an income and an expense column;
  their cells are the sums of the amounts of the month's rows of that type, which is 0
  when the month has no row of the type.
\<close>

theorem monthly_trends_complete:
  "index (monthly_trends df) = sorted_list_of_set {m. \<exists>r\<in>set df. month r = Some m}
   \<and> set (index (monthly_trends df)) = {m. \<exists>r\<in>set df. month r = Some m}
   \<and> distinct (index (monthly_trends df))
   \<and> sorted (index (monthly_trends df))
   \<and> {''income'', ''expense''} \<subseteq> set (columns (monthly_trends df))
   \<and> (\<forall>m\<in>set (index (monthly_trends df)).
         cell (monthly_trends df) m ''income'' = month_total df m ''income''
       \<and> cell (monthly_trends df) m ''expense'' = month_total df m ''expense''
       \<and> ((\<forall>r\<in>set df. month r = Some m \<longrightarrow> type r \<noteq> ''income'')
            \<longrightarrow> cell (monthly_trends df) m ''income'' = 0)
       \<and> ((\<forall>r\<in>set df. month r = Some m \<longrightarrow> type r \<noteq> ''expense'')
            \<longrightarrow> cell (monthly_trends df) m ''expense'' = 0))"
  using monthly_trends_columns [of df] finite_months [of df]
  by (simp add: monthly_trends_index monthly_trends_cell month_total_no_rows
                del: split_paired_All split_paired_Ex)

theorem monthly_trends_complete_witness:
  "index (monthly_trends example_df) = [(2024, 1, 1), (2024, 2, 1)]
   \<and> cell (monthly_trends example_df) (2024, 2, 1) ''income'' = 0
   \<and> cell (monthly_trends example_df) (2024, 2, 1) ''expense'' = - 30"
proof -
  have m: "(2024, 2, 1) \<in> set (index (monthly_trends example_df))"
    by (simp add: example_monthly_index)
  have n: "\<forall>r\<in>set example_df. month r = Some (2024, 2, 1) \<longrightarrow> type r \<noteq> ''income''"
    by (simp add: example_df_def)
  have e: "month_total example_df (2024, 2, 1) ''expense'' = - 30"
    by code_simp
  from monthly_trends_complete [of example_df] m n e example_monthly_index
  show ?thesis by (simp del: split_paired_All split_paired_Ex) 
qed

section \<open>Sorting routines and rounding\<close>

lemma sorts_mset: "sorts argsort \<Longrightarrow> mset (argsort s) = mset s"
  by (simp add: sorts_def)

lemma sorts_sorted: "sorts argsort \<Longrightarrow> sorted (map snd (argsort s))"
  by (simp add: sorts_def)

lemma sorts_length: "sorts argsort \<Longrightarrow> length (argsort s) = length s"
  using sorts_mset [of argsort s] by (metis size_mset)

lemma sorts_set: "sorts argsort \<Longrightarrow> set (argsort s) = set s"
  using sorts_mset [of argsort s] by (metis set_mset_mset)

lemma sorts_single: "sorts argsort \<Longrightarrow> argsort [x] = [x]"
  using sorts_mset [of argsort "[x]"] by simp

lemma sorts_insertion_sort: "sorts insertion_sort"
  by (simp add: sorts_def insertion_sort_def)







lemma sorted_sort_values_asc: "sorts argsort \<Longrightarrow> sorted (map snd (sort_values argsort True s))"
  by (simp add: sort_values_def sorts_sorted)




lemma rint_int: "rint (of_int n) = n"
  by (simp add: rint_def)





section \<open>The rankings\<close>























section \<open>Cumulative net\<close>


lemma length_cumsum_from: "length (cumsum_from a s) = length s"
  by (induction a s rule: cumsum_from.induct) simp_all





section \<open>Sums over groups\<close>





section \<open>Category totals and expense totals\<close>

lemma dropna_append: "dropna (xs @ ys) = dropna xs @ dropna ys"
  by (induction xs rule: dropna.induct) simp_all

lemma groupby_sum_dropna_cong: "dropna kvs = dropna kvs' \<Longrightarrow> groupby_sum kvs = groupby_sum kvs'"
  by (simp add: groupby_sum_def)










lemma uncategorised_load: "load_data uncategorised_table = Inr uncategorised_df"
  by code_simp




text \<open>
  Claim C10. In the table returned by \<open>load_data\<close>, a row with a negative amount, a date
  and no category leaves the category series as it is without the row, while its month
  is in the monthly series and the month's expense total is the row's amount plus the
  expense total of the other rows of that month.
\<close>

theorem uncategorised_expense_row:
  assumes "load_data t = Inr (df1 @ r # df2)"
      and "amount r = Some a" "a < 0" "category r = None" "date r = Some d"
  shows "category_breakdown argsort (df1 @ r # df2) = category_breakdown argsort (df1 @ df2)
       \<and> to_month d \<in> set (index (monthly_trends (df1 @ r # df2)))
       \<and> cell (monthly_trends (df1 @ r # df2)) (to_month d) ''expense''
           = a + month_total (df1 @ df2) (to_month d) ''expense''"
proof -
  have r: "r \<in> set (df1 @ r # df2)" by simp
  have ty: "type r = ''expense''"
    using load_data_type(1) [OF assms(1) r] assms(2,3) by (simp add: ge0_def)
  have mo: "month r = Some (to_month d)"
    using load_data_type(2) [OF assms(1) r] assms(5) by simp
  have "dropna (map (\<lambda>r. (category r, amount r)) (filter (\<lambda>r. lt0 (amount r)) (df1 @ r # df2)))
      = dropna (map (\<lambda>r. (category r, amount r)) (filter (\<lambda>r. lt0 (amount r)) (df1 @ df2)))"
    using assms(4) by (simp add: dropna_append)
  then have "groupby_sum (map (\<lambda>r. (category r, amount r))
                 (filter (\<lambda>r. lt0 (amount r)) (df1 @ r # df2)))
      = groupby_sum (map (\<lambda>r. (category r, amount r))
                 (filter (\<lambda>r. lt0 (amount r)) (df1 @ df2)))"
    by (rule groupby_sum_dropna_cong)
  then have a: "category_breakdown argsort (df1 @ r # df2) = category_breakdown argsort (df1 @ df2)"
    by (simp only: category_breakdown_def Let_def)
  have b: "to_month d \<in> set (index (monthly_trends (df1 @ r # df2)))"
    unfolding monthly_trends_index_set using mo r by blast
  have "cell (monthly_trends (df1 @ r # df2)) (to_month d) ''expense''
      = month_total (df1 @ r # df2) (to_month d) ''expense''"
    by (simp add: monthly_trends_cell)
  also have "\<dots> = a + month_total (df1 @ df2) (to_month d) ''expense''"
    using ty mo assms(2) by (simp add: month_total_def nansum_def)
  finally show ?thesis using a b by simp
qed

theorem uncategorised_expense_row_witness:
  "category_breakdown insertion_sort uncategorised_df = category_breakdown insertion_sort [lunch_row]
   \<and> category_breakdown insertion_sort uncategorised_df = [(''Food'', - 50)]
   \<and> cell (monthly_trends uncategorised_df) (2024, 1, 1) ''expense'' = - 70"
proof -
  have l: "load_data uncategorised_table = Inr ([lunch_row] @ cash_row # [])"
    using uncategorised_load by (simp add: uncategorised_df_def)
  have h: "amount cash_row = Some (- 20)" "(- 20 :: rat) < 0" "category cash_row = None"
          "date cash_row = Some (2024, 1, 7)"
    by (simp_all add: cash_row_def)
  have m: "to_month (2024, 1, 7) = (2024, 1, 1)" by (simp add: to_month_def)
  have t: "month_total [lunch_row] (2024, 1, 1) ''expense'' = - 50" by code_simp
  have c: "category_breakdown insertion_sort [lunch_row] = [(''Food'', - 50)]" by code_simp
  from uncategorised_expense_row [OF l h, of insertion_sort] m t c
  show ?thesis by (simp add: uncategorised_df_def)
qed

section \<open>The example\<close>

lemma monthly_trends_cong:
  "map (\<lambda>r. (month_type_key r, amount r)) df = map (\<lambda>r. (month_type_key r, amount r)) df'
     \<Longrightarrow> monthly_trends df = monthly_trends df'"
  by (simp add: monthly_trends_def)

lemma category_breakdown_cong:
  "map (\<lambda>r. (category r, amount r)) (filter (\<lambda>r. lt0 (amount r)) df)
     = map (\<lambda>r. (category r, amount r)) (filter (\<lambda>r. lt0 (amount r)) df')
     \<Longrightarrow> category_breakdown argsort df = category_breakdown argsort df'"
  by (simp add: category_breakdown_def)

lemma example_groupby_category:
  "groupby_sum (map (\<lambda>r. (category r, amount r)) (filter (\<lambda>r. lt0 (amount r)) example_df))
     = [(''Food'', - 80)]"
  by code_simp

lemma example_category_breakdown:
  "sorts argsort \<Longrightarrow> category_breakdown argsort example_df = [(''Food'', - 80)]"
  by (simp add: category_breakdown_def Let_def example_groupby_category sort_values_def
        sorts_single)

lemma example_cum_net:
  "cumsum (getitem (monthly_trends example_df) ''net'') = [((2024, 1, 1), 1950), ((2024, 2, 1), 1920)]"
  by code_simp

lemma example_totals:
  "sum_series (getitem (monthly_trends example_df) ''income'') = 2000"
  "sum_series (getitem (monthly_trends example_df) ''expense'') = - 80"
  "sum_series (getitem (monthly_trends example_df) ''net'') = 1920"
  by code_simp+

lemma round_dec_80: "round_dec 2 (- 80) = - 80"
  by code_simp

lemma single_ranking:
  assumes "sorts argsort"
  shows "mul_series (head (Suc n) (sort_values argsort False (abs_series [(k, v)]))) (- 1)
           = [(k, - \<bar>v\<bar>)]"
  by (simp add: abs_series_def sort_values_def sorts_single [OF assms] head_def mul_series_def)

lemma example_header: "required \<subseteq> lower ` set (csv_columns example_table)"
proof -
  have e: "map lower (csv_columns example_table)
      = [''date'', ''description'', ''amount'', ''category'']"
    by code_simp
  have "lower ` set (csv_columns example_table) = set (map lower (csv_columns example_table))"
    by simp
  also have "\<dots> = {''date'', ''description'', ''amount'', ''category''}"
    unfolding e by simp
  finally show ?thesis by (simp add: required_def)
qed

text \<open>
  Claim C1. For every table whose header has the four required columns and whose three
  rows are (2024-01-05, -50, Food), (2024-01-10, 2000, any category) and
  (2024-02-01, -30, Food), with any descriptions, and for every sorting routine that
  sorts: the monthly series is January with income 2000, expense -50, net 1950 and
  February with income 0, expense -30, net -30; the category series is Food: -80; the
  totals are 2000, -80 and 1920; \<open>top10\<close> and \<open>top5\<close> are Food: -80; and the cumulative
  net series is 1950, 1920.
\<close>

theorem example_pipeline:
  assumes "sorts argsort"
      and "required \<subseteq> lower ` set (csv_columns t)"
      and "csv_rows t = [r1, r2, r3]"
      and "raw_date r1 = Parses (2024, 1, 5)" "raw_amount r1 = Some (- 50)"
          "raw_category r1 = Some ''Food''"
      and "raw_date r2 = Parses (2024, 1, 10)" "raw_amount r2 = Some 2000"
      and "raw_date r3 = Parses (2024, 2, 1)" "raw_amount r3 = Some (- 30)"
          "raw_category r3 = Some ''Food''"
  shows "\<exists>df. load_data t = Inr df
           \<and> category_breakdown argsort df = [(''Food'', - 80)]
           \<and> main argsort t =
               Inr (\<lparr> trend = [((2024, 1, 1), 2000, - 50, 1950), ((2024, 2, 1), 0, - 30, - 30)],
                      top10 = [(''Food'', - 80)],
                      cum_net = [((2024, 1, 1), 1950), ((2024, 2, 1), 1920)] \<rparr>,
                    \<lparr> total_income = 2000, total_expense = - 80, total_net = 1920,
                      top5 = [(''Food'', - 80)] \<rparr>)"
proof -
  let ?df = "[derive r1 (Some (2024, 1, 5)), derive r2 (Some (2024, 1, 10)),
              derive r3 (Some (2024, 2, 1))]"
  have l: "load_data t = Inr ?df"
    using assms(2-4,7,9)
    by (simp add: load_data_unfold to_datetime_def cell_date_def)
  have m: "monthly_trends ?df = monthly_trends example_df"
    by (rule monthly_trends_cong)
       (simp add: assms derive_def month_type_key_def to_month_def ge0_def example_df_def)
  have c: "category_breakdown argsort ?df = category_breakdown argsort example_df"
    by (rule category_breakdown_cong)
       (simp add: assms derive_def lt0_def example_df_def)
  have b: "category_breakdown argsort ?df = [(''Food'', - 80)]"
    by (simp only: c example_category_breakdown [OF assms(1)])
  have t10: "mul_series (head 10 (sort_values argsort False (abs_series [(''Food'', - 80)]))) (- 1)
      = [(''Food'', - 80)]"
    using single_ranking [OF assms(1), of 9 "''Food''" "- 80"] by simp
  have t5: "mul_series (head 5 (sort_values argsort False (abs_series [(''Food'', - 80)]))) (- 1)
      = [(''Food'', - 80)]"
    using single_ranking [OF assms(1), of 4 "''Food''" "- 80"] by simp
  have s: "save_charts argsort (monthly_trends example_df) [(''Food'', - 80)]
      = \<lparr> trend = [((2024, 1, 1), 2000, - 50, 1950), ((2024, 2, 1), 0, - 30, - 30)],
          top10 = [(''Food'', - 80)],
          cum_net = [((2024, 1, 1), 1950), ((2024, 2, 1), 1920)] \<rparr>"
    unfolding save_charts_def by (simp only: example_trend t10 example_cum_net)
  have w: "write_summary argsort (monthly_trends example_df) [(''Food'', - 80)]
      = \<lparr> total_income = 2000, total_expense = - 80, total_net = 1920,
          top5 = [(''Food'', - 80)] \<rparr>"
    unfolding write_summary_def
    by (simp only: example_totals t5) (simp add: round_series_def round_dec_80)
  have "main argsort t = Inr (save_charts argsort (monthly_trends example_df) [(''Food'', - 80)],
                            write_summary argsort (monthly_trends example_df) [(''Food'', - 80)])"
    by (simp only: main_def l sum.case Let_def m b)
  then have mm: "main argsort t =
      Inr (\<lparr> trend = [((2024, 1, 1), 2000, - 50, 1950), ((2024, 2, 1), 0, - 30, - 30)],
             top10 = [(''Food'', - 80)],
             cum_net = [((2024, 1, 1), 1950), ((2024, 2, 1), 1920)] \<rparr>,
           \<lparr> total_income = 2000, total_expense = - 80, total_net = 1920,
             top5 = [(''Food'', - 80)] \<rparr>)"
    by (simp only: s w)
  show ?thesis
    by (rule exI [of _ ?df]) (intro conjI l b mm)
qed

theorem example_pipeline_witness:
  "category_breakdown insertion_sort example_df = [(''Food'', - 80)]
   \<and> main insertion_sort example_table =
       Inr (\<lparr> trend = [((2024, 1, 1), 2000, - 50, 1950), ((2024, 2, 1), 0, - 30, - 30)],
              top10 = [(''Food'', - 80)],
              cum_net = [((2024, 1, 1), 1950), ((2024, 2, 1), 1920)] \<rparr>,
            \<lparr> total_income = 2000, total_expense = - 80, total_net = 1920,
              top5 = [(''Food'', - 80)] \<rparr>)"
proof -
  have r: "csv_rows example_table = [example_rows ! 0, example_rows ! 1, example_rows ! 2]"
    by (simp add: example_table_def example_rows_def)
  have "\<exists>df. load_data example_table = Inr df
           \<and> category_breakdown insertion_sort df = [(''Food'', - 80)]
           \<and> main insertion_sort example_table =
               Inr (\<lparr> trend = [((2024, 1, 1), 2000, - 50, 1950), ((2024, 2, 1), 0, - 30, - 30)],
                      top10 = [(''Food'', - 80)],
                      cum_net = [((2024, 1, 1), 1950), ((2024, 2, 1), 1920)] \<rparr>,
                    \<lparr> total_income = 2000, total_expense = - 80, total_net = 1920,
                      top5 = [(''Food'', - 80)] \<rparr>)"
    by (rule example_pipeline [OF sorts_insertion_sort example_header r])
       (simp_all add: example_rows_def)
  then obtain df where d: "load_data example_table = Inr df"
      "category_breakdown insertion_sort df = [(''Food'', - 80)]"
      "main insertion_sort example_table =
         Inr (\<lparr> trend = [((2024, 1, 1), 2000, - 50, 1950), ((2024, 2, 1), 0, - 30, - 30)],
                top10 = [(''Food'', - 80)],
                cum_net = [((2024, 1, 1), 1950), ((2024, 2, 1), 1920)] \<rparr>,
              \<lparr> total_income = 2000, total_expense = - 80, total_net = 1920,
                top5 = [(''Food'', - 80)] \<rparr>)"
    by (elim exE conjE)
  from d(1) have "df = example_df" by (simp only: example_load sum.inject)
  with d(2) have "category_breakdown insertion_sort example_df = [(''Food'', - 80)]"
    by (simp only:)
  with d(3) show ?thesis by (intro conjI)
qed

end
